theory Spec2Isabelle
  imports Complex_Main
begin

section \<open>Signal filters and generators of robotlib\<close>

text \<open>
  A shallow embedding of \<^verbatim>\<open>robotlib/signals/filters.py\<close> and
  \<^verbatim>\<open>robotlib/signals/generators.py\<close>.

  Conventions of the embedding:
  \<^item> Python's \<^verbatim>\<open>float\<close> has two readings. Where a property is one of structure (which
    formula is computed, what is stored, what is validated, how filters are
    composed), \<^verbatim>\<open>float\<close> is read as \<^typ>\<open>real\<close>: arithmetic is exact, there is no
    rounding, overflow, infinity or NaN, and \<^verbatim>\<open>math.pi\<close> is \<^term>\<open>pi\<close>. Where a property
    depends on the value a computation rounds to (the range of the smoothing
    coefficients, the comparison of the period fraction with the duty cycle),
    \<^verbatim>\<open>float\<close> is read as IEEE 754 binary64, and the functions concerned are embedded
    again under names that end in \<open>_b64\<close>.
  \<^item> An instance attribute \<^verbatim>\<open>self._x\<close> (or \<^verbatim>\<open>self.x\<close>) is the record field
    \<open>m_x\<close>; a subclass is a record extension, so an inherited method is the same
    function at the extended record type.
  \<^item> A method \<^verbatim>\<open>C.f(self, args)\<close> is a function \<open>C_f self args\<close> that returns the
    outcome of the call together with the object after the call; the object is
    returned also when the call raises, because Python keeps every assignment
    made before the exception. A private method \<^verbatim>\<open>_f\<close> is written \<open>C__f\<close>.
  \<^item> A constructor returns the exception or the new object.
  \<^item> An overridable method called through \<^verbatim>\<open>self\<close> is a function argument of
    the method that calls it.
\<close>

subsection \<open>Exceptions and float division\<close>

datatype error = ValueError | ZeroDivisionError | RuntimeError

text \<open>\<^verbatim>\<open>x / y\<close> on floats raises \<^verbatim>\<open>ZeroDivisionError\<close> when \<^verbatim>\<open>y\<close> is zero.\<close>

definition py_truediv :: "real \<Rightarrow> real \<Rightarrow> error + real" where
  "py_truediv x y = (if y = 0 then Inl ZeroDivisionError else Inr (x / y))"

subsection \<open>\<^verbatim>\<open>_SingleCutoffFreqFilter\<close>\<close>

record SingleCutoffFreqFilter =
  m_cutoff_freq :: real
  m_prev_output :: real

definition SingleCutoffFreqFilter__check_cutoff_freq :: "real \<Rightarrow> error + unit" where
  "SingleCutoffFreqFilter__check_cutoff_freq cutoff_freq =
     (if cutoff_freq < 0 then Inl ValueError else Inr ())"

definition SingleCutoffFreqFilter_get_cutoff_freq ::
  "'a SingleCutoffFreqFilter_scheme \<Rightarrow> real" where
  "SingleCutoffFreqFilter_get_cutoff_freq self = m_cutoff_freq self"

definition SingleCutoffFreqFilter_set_cutoff_freq ::
  "'a SingleCutoffFreqFilter_scheme \<Rightarrow> real
     \<Rightarrow> (error + unit) \<times> 'a SingleCutoffFreqFilter_scheme" where
  "SingleCutoffFreqFilter_set_cutoff_freq self cutoff_freq =
     (case SingleCutoffFreqFilter__check_cutoff_freq cutoff_freq of
        Inl e \<Rightarrow> (Inl e, self)
      | Inr _ \<Rightarrow> (Inr (), self\<lparr>m_cutoff_freq := cutoff_freq\<rparr>))"

text \<open>
  \<^verbatim>\<open>__init__\<close> sets \<^verbatim>\<open>_cutoff_freq\<close> to \<^verbatim>\<open>None\<close>, calls \<^verbatim>\<open>set_cutoff_freq\<close> and then
  stores \<^verbatim>\<open>init_value\<close>; when the check raises, no object is returned.
\<close>

definition SingleCutoffFreqFilter_init ::
  "real \<Rightarrow> real \<Rightarrow> error + SingleCutoffFreqFilter" where
  "SingleCutoffFreqFilter_init cutoff_freq init_value =
     (case SingleCutoffFreqFilter__check_cutoff_freq cutoff_freq of
        Inl e \<Rightarrow> Inl e
      | Inr _ \<Rightarrow> Inr \<lparr>m_cutoff_freq = cutoff_freq, m_prev_output = init_value\<rparr>)"

text \<open>
  \<^verbatim>\<open>filter\<close> calls the subclass's \<^verbatim>\<open>_filter\<close>, stores its output in
  \<^verbatim>\<open>_prev_output\<close> and returns it. When \<^verbatim>\<open>_filter\<close> raises, the assignment is not
  reached.
\<close>

definition SingleCutoffFreqFilter_filter ::
  "('a SingleCutoffFreqFilter_scheme \<Rightarrow> real \<Rightarrow> real
      \<Rightarrow> (error + real) \<times> 'a SingleCutoffFreqFilter_scheme)
   \<Rightarrow> 'a SingleCutoffFreqFilter_scheme \<Rightarrow> real \<Rightarrow> real
   \<Rightarrow> (error + real) \<times> 'a SingleCutoffFreqFilter_scheme" where
  "SingleCutoffFreqFilter_filter filter_impl self value dt =
     (case filter_impl self value dt of
        (Inl e, self') \<Rightarrow> (Inl e, self')
      | (Inr output, self') \<Rightarrow> (Inr output, self'\<lparr>m_prev_output := output\<rparr>))"

subsection \<open>\<^verbatim>\<open>LowPassFilter\<close>\<close>

type_synonym LowPassFilter = SingleCutoffFreqFilter

definition LowPassFilter_init :: "real \<Rightarrow> real \<Rightarrow> error + LowPassFilter" where
  "LowPassFilter_init cutoff_freq init_value =
     SingleCutoffFreqFilter_init cutoff_freq init_value"

definition LowPassFilter__get_alpha :: "LowPassFilter \<Rightarrow> real \<Rightarrow> error + real" where
  "LowPassFilter__get_alpha self dt =
     (let cutoff_freq = SingleCutoffFreqFilter_get_cutoff_freq self;
          a = 2 * pi * dt * cutoff_freq
      in py_truediv a (a + 1))"

definition LowPassFilter__filter ::
  "LowPassFilter \<Rightarrow> real \<Rightarrow> real \<Rightarrow> (error + real) \<times> LowPassFilter" where
  "LowPassFilter__filter self value dt =
     (case LowPassFilter__get_alpha self dt of
        Inl e \<Rightarrow> (Inl e, self)
      | Inr alpha \<Rightarrow> (Inr (alpha * value + (1 - alpha) * m_prev_output self), self))"

definition LowPassFilter_filter ::
  "LowPassFilter \<Rightarrow> real \<Rightarrow> real \<Rightarrow> (error + real) \<times> LowPassFilter" where
  "LowPassFilter_filter = SingleCutoffFreqFilter_filter LowPassFilter__filter"

subsection \<open>\<^verbatim>\<open>HighPassFilter\<close>\<close>

record HighPassFilter = SingleCutoffFreqFilter +
  m_prev_value :: real

definition HighPassFilter_init :: "real \<Rightarrow> real \<Rightarrow> error + HighPassFilter" where
  "HighPassFilter_init cutoff_freq init_value =
     (case SingleCutoffFreqFilter_init cutoff_freq init_value of
        Inl e \<Rightarrow> Inl e
      | Inr base \<Rightarrow>
          Inr \<lparr>m_cutoff_freq = m_cutoff_freq base, m_prev_output = m_prev_output base,
               m_prev_value = init_value\<rparr>)"

definition HighPassFilter__get_alpha :: "HighPassFilter \<Rightarrow> real \<Rightarrow> error + real" where
  "HighPassFilter__get_alpha self dt =
     (let cutoff_freq = SingleCutoffFreqFilter_get_cutoff_freq self
      in py_truediv 1 (2 * pi * dt * cutoff_freq + 1))"

text \<open>
  \<^verbatim>\<open>_filter\<close> assigns \<^verbatim>\<open>_prev_value\<close> before it computes \<^verbatim>\<open>alpha\<close>, so the assignment
  stays when \<^verbatim>\<open>_get_alpha\<close> raises.
\<close>

definition HighPassFilter__filter ::
  "HighPassFilter \<Rightarrow> real \<Rightarrow> real \<Rightarrow> (error + real) \<times> HighPassFilter" where
  "HighPassFilter__filter self value dt =
     (let d_value = value - m_prev_value self;
          self1 = self\<lparr>m_prev_value := value\<rparr>
      in case HighPassFilter__get_alpha self1 dt of
           Inl e \<Rightarrow> (Inl e, self1)
         | Inr alpha \<Rightarrow> (Inr (alpha * (m_prev_output self1 + d_value)), self1))"

definition HighPassFilter_filter ::
  "HighPassFilter \<Rightarrow> real \<Rightarrow> real \<Rightarrow> (error + real) \<times> HighPassFilter" where
  "HighPassFilter_filter = SingleCutoffFreqFilter_filter HighPassFilter__filter"

subsection \<open>\<^verbatim>\<open>Filter.__call__\<close>\<close>

text \<open>Calling a filter object calls its \<^verbatim>\<open>filter\<close> method.\<close>

definition Filter_call ::
  "('s \<Rightarrow> real \<Rightarrow> real \<Rightarrow> (error + real) \<times> 's)
   \<Rightarrow> 's \<Rightarrow> real \<Rightarrow> real \<Rightarrow> (error + real) \<times> 's" where
  "Filter_call filter_method self value dt = filter_method self value dt"

subsection \<open>\<^verbatim>\<open>_LowHighCutoffFreqsFilter\<close>\<close>

text \<open>The base class of the band filters has no attribute of its own.\<close>

definition LowHighCutoffFreqsFilter__check_cutoff_freqs ::
  "real \<Rightarrow> real \<Rightarrow> error + unit" where
  "LowHighCutoffFreqsFilter__check_cutoff_freqs low_cutoff_freq high_cutoff_freq =
     (if low_cutoff_freq > high_cutoff_freq then Inl ValueError else Inr ())"

definition LowHighCutoffFreqsFilter_init :: "real \<Rightarrow> real \<Rightarrow> error + unit" where
  "LowHighCutoffFreqsFilter_init low_cutoff_freq high_cutoff_freq =
     LowHighCutoffFreqsFilter__check_cutoff_freqs low_cutoff_freq high_cutoff_freq"

definition LowHighCutoffFreqsFilter_set_cutoff_freqs ::
  "'s \<Rightarrow> real \<Rightarrow> real \<Rightarrow> (error + unit) \<times> 's" where
  "LowHighCutoffFreqsFilter_set_cutoff_freqs self low_cutoff_freq high_cutoff_freq =
     (LowHighCutoffFreqsFilter__check_cutoff_freqs low_cutoff_freq high_cutoff_freq, self)"

subsection \<open>\<^verbatim>\<open>BandPassFilter\<close>\<close>

text \<open>The attributes \<^verbatim>\<open>_hpf\<close> and \<^verbatim>\<open>_lpf\<close> of a band-pass filter are \<open>bp_hpf\<close> and \<open>bp_lpf\<close>.\<close>

record BandPassFilter =
  bp_hpf :: HighPassFilter
  bp_lpf :: LowPassFilter

definition BandPassFilter_init :: "real \<Rightarrow> real \<Rightarrow> real \<Rightarrow> error + BandPassFilter" where
  "BandPassFilter_init low_cutoff_freq high_cutoff_freq init_value =
     (case LowHighCutoffFreqsFilter_init low_cutoff_freq high_cutoff_freq of
        Inl e \<Rightarrow> Inl e
      | Inr _ \<Rightarrow>
         (case HighPassFilter_init low_cutoff_freq init_value of
            Inl e \<Rightarrow> Inl e
          | Inr hpf \<Rightarrow>
             (case LowPassFilter_init high_cutoff_freq init_value of
                Inl e \<Rightarrow> Inl e
              | Inr lpf \<Rightarrow> Inr \<lparr>bp_hpf = hpf, bp_lpf = lpf\<rparr>)))"

definition BandPassFilter_set_cutoff_freqs ::
  "BandPassFilter \<Rightarrow> real \<Rightarrow> real \<Rightarrow> (error + unit) \<times> BandPassFilter" where
  "BandPassFilter_set_cutoff_freqs self low_cutoff_freq high_cutoff_freq =
     (case LowHighCutoffFreqsFilter_set_cutoff_freqs self low_cutoff_freq high_cutoff_freq of
        (Inl e, self1) \<Rightarrow> (Inl e, self1)
      | (Inr _, self1) \<Rightarrow>
         (case SingleCutoffFreqFilter_set_cutoff_freq (bp_hpf self1) low_cutoff_freq of
            (Inl e, hpf) \<Rightarrow> (Inl e, self1\<lparr>bp_hpf := hpf\<rparr>)
          | (Inr _, hpf) \<Rightarrow>
             (case SingleCutoffFreqFilter_set_cutoff_freq (bp_lpf self1) high_cutoff_freq of
                (r, lpf) \<Rightarrow> (r, self1\<lparr>bp_hpf := hpf, bp_lpf := lpf\<rparr>))))"

definition BandPassFilter_filter ::
  "BandPassFilter \<Rightarrow> real \<Rightarrow> real \<Rightarrow> (error + real) \<times> BandPassFilter" where
  "BandPassFilter_filter self value dt =
     (case Filter_call HighPassFilter_filter (bp_hpf self) value dt of
        (Inl e, hpf) \<Rightarrow> (Inl e, self\<lparr>bp_hpf := hpf\<rparr>)
      | (Inr value1, hpf) \<Rightarrow>
         (case Filter_call LowPassFilter_filter (bp_lpf self) value1 dt of
            (r, lpf) \<Rightarrow> (r, self\<lparr>bp_hpf := hpf, bp_lpf := lpf\<rparr>)))"

subsection \<open>\<^verbatim>\<open>BandStopFilter\<close>\<close>

text \<open>The attributes \<^verbatim>\<open>_lpf\<close> and \<^verbatim>\<open>_hpf\<close> of a band-stop filter are \<open>bs_lpf\<close> and \<open>bs_hpf\<close>.\<close>

record BandStopFilter =
  bs_lpf :: LowPassFilter
  bs_hpf :: HighPassFilter

definition BandStopFilter_init :: "real \<Rightarrow> real \<Rightarrow> real \<Rightarrow> error + BandStopFilter" where
  "BandStopFilter_init low_cutoff_freq high_cutoff_freq init_value =
     (case LowHighCutoffFreqsFilter_init low_cutoff_freq high_cutoff_freq of
        Inl e \<Rightarrow> Inl e
      | Inr _ \<Rightarrow>
         (case LowPassFilter_init low_cutoff_freq init_value of
            Inl e \<Rightarrow> Inl e
          | Inr lpf \<Rightarrow>
             (case HighPassFilter_init high_cutoff_freq init_value of
                Inl e \<Rightarrow> Inl e
              | Inr hpf \<Rightarrow> Inr \<lparr>bs_lpf = lpf, bs_hpf = hpf\<rparr>)))"

definition BandStopFilter_set_cutoff_freqs ::
  "BandStopFilter \<Rightarrow> real \<Rightarrow> real \<Rightarrow> (error + unit) \<times> BandStopFilter" where
  "BandStopFilter_set_cutoff_freqs self low_cutoff_freq high_cutoff_freq =
     (case LowHighCutoffFreqsFilter_set_cutoff_freqs self low_cutoff_freq high_cutoff_freq of
        (Inl e, self1) \<Rightarrow> (Inl e, self1)
      | (Inr _, self1) \<Rightarrow>
         (case SingleCutoffFreqFilter_set_cutoff_freq (bs_lpf self1) low_cutoff_freq of
            (Inl e, lpf) \<Rightarrow> (Inl e, self1\<lparr>bs_lpf := lpf\<rparr>)
          | (Inr _, lpf) \<Rightarrow>
             (case SingleCutoffFreqFilter_set_cutoff_freq (bs_hpf self1) high_cutoff_freq of
                (r, hpf) \<Rightarrow> (r, self1\<lparr>bs_lpf := lpf, bs_hpf := hpf\<rparr>))))"

text \<open>
  \<^verbatim>\<open>self._lpf(value, dt) + self._hpf(value, dt)\<close>: the left operand is evaluated
  first, and the right one only when the left one returned.
\<close>

definition BandStopFilter_filter ::
  "BandStopFilter \<Rightarrow> real \<Rightarrow> real \<Rightarrow> (error + real) \<times> BandStopFilter" where
  "BandStopFilter_filter self value dt =
     (case Filter_call LowPassFilter_filter (bs_lpf self) value dt of
        (Inl e, lpf) \<Rightarrow> (Inl e, self\<lparr>bs_lpf := lpf\<rparr>)
      | (Inr y_lpf, lpf) \<Rightarrow>
         (case Filter_call HighPassFilter_filter (bs_hpf self) value dt of
            (Inl e, hpf) \<Rightarrow> (Inl e, self\<lparr>bs_lpf := lpf, bs_hpf := hpf\<rparr>)
          | (Inr y_hpf, hpf) \<Rightarrow>
              (Inr (y_lpf + y_hpf), self\<lparr>bs_lpf := lpf, bs_hpf := hpf\<rparr>)))"

subsection \<open>\<^verbatim>\<open>PeriodicSignalGenerator\<close>\<close>








subsection \<open>\<^verbatim>\<open>RandomSignalGenerator\<close> and \<^verbatim>\<open>UniformRandomSignalGenerator\<close>\<close>

text \<open>
  The random source is either \<^verbatim>\<open>random.Random()\<close>, with the seed it was given if
  any, or \<^verbatim>\<open>random.SystemRandom()\<close>, whose \<^verbatim>\<open>seed\<close> method does nothing. Only the
  construction is modelled, not the numbers drawn.
\<close>

datatype rng = PyRandom "int option" | PySystemRandom

fun rng_seed :: "rng \<Rightarrow> int \<Rightarrow> rng" where
  "rng_seed (PyRandom _) seed = PyRandom (Some seed)"
| "rng_seed PySystemRandom seed = PySystemRandom"

record RandomSignalGenerator =
  m_rng :: rng

definition RandomSignalGenerator__set_rng :: "string \<Rightarrow> error + rng" where
  "RandomSignalGenerator__set_rng randomness =
     (if randomness = ''pseudo'' then Inr (PyRandom None)
      else if randomness = ''true'' then Inr PySystemRandom
      else Inl ValueError)"

definition RandomSignalGenerator_init ::
  "int option \<Rightarrow> string \<Rightarrow> error + RandomSignalGenerator" where
  "RandomSignalGenerator_init seed randomness =
     (case RandomSignalGenerator__set_rng randomness of
        Inl e \<Rightarrow> Inl e
      | Inr r \<Rightarrow>
          Inr \<lparr>m_rng = (case seed of None \<Rightarrow> r | Some sd \<Rightarrow> rng_seed r sd)\<rparr>)"

record UniformRandomSignalGenerator = RandomSignalGenerator +
  m_low :: real
  m_high :: real

definition UniformRandomSignalGenerator_init ::
  "real \<Rightarrow> real \<Rightarrow> int option \<Rightarrow> string \<Rightarrow> error + UniformRandomSignalGenerator" where
  "UniformRandomSignalGenerator_init low high seed randomness =
     (case RandomSignalGenerator_init seed randomness of
        Inl e \<Rightarrow> Inl e
      | Inr base \<Rightarrow> Inr \<lparr>m_rng = m_rng base, m_low = low, m_high = high\<rparr>)"

subsection \<open>Feeding a sequence of inputs to a filter\<close>

text \<open>
  The caller's loop: \<^verbatim>\<open>[f.filter(value, dt) for (value, dt) in inputs]\<close>. An
  exception raised by a call leaves the loop, so no output list is produced.
\<close>

fun filter_seq ::
  "('s \<Rightarrow> real \<Rightarrow> real \<Rightarrow> (error + real) \<times> 's) \<Rightarrow> 's \<Rightarrow> (real \<times> real) list
   \<Rightarrow> error + real list" where
  "filter_seq filter_method self [] = Inr []"
| "filter_seq filter_method self ((value, dt) # rest) =
     (case filter_method self value dt of
        (Inl e, _) \<Rightarrow> Inl e
      | (Inr output, self') \<Rightarrow>
         (case filter_seq filter_method self' rest of
            Inl e \<Rightarrow> Inl e
          | Inr outputs \<Rightarrow> Inr (output # outputs)))"

text \<open>A freshly constructed band filter, fed a sequence of inputs.\<close>

definition BandPassFilter_outputs ::
  "real \<Rightarrow> real \<Rightarrow> real \<Rightarrow> (real \<times> real) list \<Rightarrow> error + real list" where
  "BandPassFilter_outputs low_cutoff_freq high_cutoff_freq init_value inputs =
     (case BandPassFilter_init low_cutoff_freq high_cutoff_freq init_value of
        Inl e \<Rightarrow> Inl e
      | Inr bpf \<Rightarrow> filter_seq BandPassFilter_filter bpf inputs)"

definition BandStopFilter_outputs ::
  "real \<Rightarrow> real \<Rightarrow> real \<Rightarrow> (real \<times> real) list \<Rightarrow> error + real list" where
  "BandStopFilter_outputs low_cutoff_freq high_cutoff_freq init_value inputs =
     (case BandStopFilter_init low_cutoff_freq high_cutoff_freq init_value of
        Inl e \<Rightarrow> Inl e
      | Inr bsf \<Rightarrow> filter_seq BandStopFilter_filter bsf inputs)"

subsection \<open>The composition laws of the specification\<close>

text \<open>
  The specification's cascade: a high-pass filter and a low-pass filter kept side
  by side, each call being \<^verbatim>\<open>lpf.filter(hpf.filter(value, dt), dt)\<close>.
\<close>

definition spec_cascade_filter ::
  "HighPassFilter \<times> LowPassFilter \<Rightarrow> real \<Rightarrow> real
   \<Rightarrow> (error + real) \<times> (HighPassFilter \<times> LowPassFilter)" where
  "spec_cascade_filter pair value dt =
     (case pair of (hpf, lpf) \<Rightarrow>
        (case HighPassFilter_filter hpf value dt of
           (Inl e, hpf') \<Rightarrow> (Inl e, (hpf', lpf))
         | (Inr y, hpf') \<Rightarrow>
            (case LowPassFilter_filter lpf y dt of
               (r, lpf') \<Rightarrow> (r, (hpf', lpf')))))"

definition spec_cascade_outputs ::
  "real \<Rightarrow> real \<Rightarrow> real \<Rightarrow> (real \<times> real) list \<Rightarrow> error + real list" where
  "spec_cascade_outputs low high init_value inputs =
     (case HighPassFilter_init low init_value of
        Inl e \<Rightarrow> Inl e
      | Inr hpf \<Rightarrow>
         (case LowPassFilter_init high init_value of
            Inl e \<Rightarrow> Inl e
          | Inr lpf \<Rightarrow> filter_seq spec_cascade_filter (hpf, lpf) inputs))"

text \<open>
  The same cascade on whole sequences: the high-pass filter is fed all the inputs,
  and the low-pass filter is then fed its outputs, each with the \<^verbatim>\<open>dt\<close> of its
  input.
\<close>

definition spec_cascade_stream_outputs ::
  "real \<Rightarrow> real \<Rightarrow> real \<Rightarrow> (real \<times> real) list \<Rightarrow> error + real list" where
  "spec_cascade_stream_outputs low high init_value inputs =
     (case HighPassFilter_init low init_value of
        Inl e \<Rightarrow> Inl e
      | Inr hpf \<Rightarrow>
         (case LowPassFilter_init high init_value of
            Inl e \<Rightarrow> Inl e
          | Inr lpf \<Rightarrow>
             (case filter_seq HighPassFilter_filter hpf inputs of
                Inl e \<Rightarrow> Inl e
              | Inr ys \<Rightarrow> filter_seq LowPassFilter_filter lpf (zip ys (map snd inputs)))))"

text \<open>
  The specification's parallel sum: a low-pass filter and a high-pass filter that
  never meet. Each is fed the whole input sequence on its own, and the two output
  sequences are added element by element.
\<close>

definition spec_parallel_outputs ::
  "real \<Rightarrow> real \<Rightarrow> real \<Rightarrow> (real \<times> real) list \<Rightarrow> error + real list" where
  "spec_parallel_outputs low high init_value inputs =
     (case LowPassFilter_init low init_value of
        Inl e \<Rightarrow> Inl e
      | Inr lpf \<Rightarrow>
         (case HighPassFilter_init high init_value of
            Inl e \<Rightarrow> Inl e
          | Inr hpf \<Rightarrow>
             (case filter_seq LowPassFilter_filter lpf inputs of
                Inl e \<Rightarrow> Inl e
              | Inr ys \<Rightarrow>
                 (case filter_seq HighPassFilter_filter hpf inputs of
                    Inl e \<Rightarrow> Inl e
                  | Inr zs \<Rightarrow> Inr (map2 (+) ys zs)))))"

section \<open>Binary64 arithmetic\<close>


definition pow2 :: "int \<Rightarrow> real" where
  "pow2 k = 2 powr of_int k"

text \<open>Rounding a real to the nearest integer, a tie going to the even one.\<close>

definition round_half_even :: "real \<Rightarrow> int" where
  "round_half_even y =
     (let f = \<lfloor>y\<rfloor>; d = y - of_int f
      in if d < 1 / 2 then f
         else if 1 / 2 < d then f + 1
         else if even f then f else f + 1)"

text \<open>
  The binary exponent of \<open>x\<close> is \<open>\<lfloor>log\<^sub>2 \<bar>x\<bar>\<rfloor>\<close>, but not below \<open>-1022\<close>, where the
  subnormal numbers begin. Binary64 numbers with that exponent are the multiples
  of the quantum \<open>2 ^ (exponent - 52)\<close>; \<open>b64_nearest x\<close> is the nearest such
  multiple, ties to the even mantissa. It may be the next power of two, which is
  a binary64 number as well.
\<close>

definition b64_exponent :: "real \<Rightarrow> int" where
  "b64_exponent x = max \<lfloor>log 2 \<bar>x\<bar>\<rfloor> (- 1022)"

definition b64_quantum :: "real \<Rightarrow> real" where
  "b64_quantum x = pow2 (b64_exponent x - 52)"

definition b64_nearest :: "real \<Rightarrow> real" where
  "b64_nearest x =
     sgn x * (b64_quantum x * of_int (round_half_even (\<bar>x\<bar> / b64_quantum x)))"



subsection \<open>The operations of \<^verbatim>\<open>float\<close>\<close>














section \<open>The coefficients and the triangle wave in binary64\<close>

text \<open>
  The same source functions as above, with \<^verbatim>\<open>float\<close> read as binary64. A name
  ends in \<open>_b64\<close>, and the attribute \<^verbatim>\<open>self._x\<close> is the record field \<open>b_x\<close>. The
  literals \<^verbatim>\<open>2\<close> and \<^verbatim>\<open>1\<close> are integers that Python converts to \<^verbatim>\<open>2.0\<close> and \<^verbatim>\<open>1.0\<close>.
\<close>

subsection \<open>\<^verbatim>\<open>LowPassFilter._get_alpha\<close> and \<^verbatim>\<open>HighPassFilter._get_alpha\<close>\<close>






subsection \<open>\<^verbatim>\<open>PeriodicSignalGenerator\<close>\<close>








subsection \<open>\<^verbatim>\<open>PeriodicSignalGeneratorWithDutyCycle\<close>\<close>







subsection \<open>\<^verbatim>\<open>TriangleWaveGenerator\<close>\<close>





section \<open>Properties\<close>

subsection \<open>One call of a single-cutoff filter\<close>

text \<open>
  What \<^verbatim>\<open>filter\<close> does, with the template method and the subclass's \<^verbatim>\<open>_filter\<close>
  unfolded. The only exception a call can raise is the division by zero in
  \<^verbatim>\<open>_get_alpha\<close>, when \<^verbatim>\<open>2 * pi * dt * cutoff_freq\<close> is \<open>-1\<close>.
\<close>

lemma LowPassFilter_filter_eq:
  "LowPassFilter_filter self value dt =
     (if 2 * pi * dt * m_cutoff_freq self + 1 = 0 then (Inl ZeroDivisionError, self)
      else (Inr ((2 * pi * dt * m_cutoff_freq self) / (2 * pi * dt * m_cutoff_freq self + 1) * value
                 + (1 - (2 * pi * dt * m_cutoff_freq self) / (2 * pi * dt * m_cutoff_freq self + 1)) * m_prev_output self),
            self\<lparr>m_prev_output :=
                 (2 * pi * dt * m_cutoff_freq self) / (2 * pi * dt * m_cutoff_freq self + 1) * value
                 + (1 - (2 * pi * dt * m_cutoff_freq self) / (2 * pi * dt * m_cutoff_freq self + 1)) * m_prev_output self\<rparr>))"
  by (simp add: LowPassFilter_filter_def SingleCutoffFreqFilter_filter_def
      LowPassFilter__filter_def LowPassFilter__get_alpha_def
      SingleCutoffFreqFilter_get_cutoff_freq_def py_truediv_def Let_def)

lemma HighPassFilter_filter_eq:
  "HighPassFilter_filter self value dt =
     (if 2 * pi * dt * m_cutoff_freq self + 1 = 0
      then (Inl ZeroDivisionError, self\<lparr>m_prev_value := value\<rparr>)
      else (Inr (1 / (2 * pi * dt * m_cutoff_freq self + 1)
                 * (m_prev_output self + (value - m_prev_value self))),
            self\<lparr>m_prev_value := value,
                 m_prev_output := 1 / (2 * pi * dt * m_cutoff_freq self + 1)
                 * (m_prev_output self + (value - m_prev_value self))\<rparr>))"
  by (simp add: HighPassFilter_filter_def SingleCutoffFreqFilter_filter_def
      HighPassFilter__filter_def HighPassFilter__get_alpha_def
      SingleCutoffFreqFilter_get_cutoff_freq_def py_truediv_def Let_def)

lemma denominator_nonzero:
  fixes c dt :: real
  assumes "0 \<le> c" and "0 \<le> dt"
  shows "2 * pi * dt * c + 1 \<noteq> 0"
proof -
  have "0 \<le> 2 * pi * dt * c" using assms by simp
  then show ?thesis by linarith
qed

text \<open>
  Claim C1. For a low-pass filter with cutoff frequency \<open>c \<ge> 0\<close> and stored previous
  output \<open>p\<close>, a call \<^verbatim>\<open>filter(value, dt)\<close> returns \<open>alpha * value + (1 - alpha) * p\<close>,
  where \<open>alpha = a / (a + 1)\<close> and \<open>a = 2 * pi * dt * c\<close>, and stores the returned value
  as the new previous output, every other field being kept. The quotient is
  Python's float division: it exists unless \<open>a + 1 = 0\<close>, which no \<open>dt \<ge> 0\<close> can
  cause; in that case the call raises \<^verbatim>\<open>ZeroDivisionError\<close> and changes nothing.
  In particular \<^verbatim>\<open>LowPassFilter(cutoff_freq=0, init_value=5.0).filter(100.0, 0.01)\<close>
  returns \<open>5\<close>.
\<close>

theorem LowPassFilter_filter_formula:
  assumes "m_cutoff_freq self = c" and "0 \<le> c" and "m_prev_output self = p"
    and "a = 2 * pi * dt * c" and "alpha = a / (a + 1)"
    and "output = alpha * value + (1 - alpha) * p"
  shows "LowPassFilter_filter self value dt =
           (if a + 1 = 0 then (Inl ZeroDivisionError, self)
            else (Inr output, self\<lparr>m_prev_output := output\<rparr>))
         \<and> (0 \<le> dt \<longrightarrow> a + 1 \<noteq> 0)
         \<and> (\<exists>lpf. LowPassFilter_init 0 5 = Inr lpf
               \<and> fst (LowPassFilter_filter lpf 100 (1 / 100)) = Inr 5)"
proof (intro conjI)
  show "LowPassFilter_filter self value dt =
           (if a + 1 = 0 then (Inl ZeroDivisionError, self)
            else (Inr output, self\<lparr>m_prev_output := output\<rparr>))"
    using assms by (simp add: LowPassFilter_filter_eq)
  show "0 \<le> dt \<longrightarrow> a + 1 \<noteq> 0"
    using assms denominator_nonzero [of c dt] by simp
  show "\<exists>lpf. LowPassFilter_init 0 5 = Inr lpf
               \<and> fst (LowPassFilter_filter lpf 100 (1 / 100)) = Inr 5"
    by (simp add: LowPassFilter_init_def SingleCutoffFreqFilter_init_def
        SingleCutoffFreqFilter__check_cutoff_freq_def LowPassFilter_filter_eq)
qed

text \<open>The theorem at cutoff frequency 1, previous output 2, value 3 and \<open>dt = 1\<close>.\<close>

theorem LowPassFilter_filter_formula_witness:
  "LowPassFilter_filter \<lparr>m_cutoff_freq = 1, m_prev_output = 2\<rparr> 3 1 =
     (Inr (2 * pi / (2 * pi + 1) * 3 + (1 - 2 * pi / (2 * pi + 1)) * 2),
      \<lparr>m_cutoff_freq = 1,
       m_prev_output = 2 * pi / (2 * pi + 1) * 3 + (1 - 2 * pi / (2 * pi + 1)) * 2\<rparr>)"
proof -
  have nz: "2 * pi + 1 \<noteq> 0" using denominator_nonzero [of 1 1] by simp
  show ?thesis
    using LowPassFilter_filter_formula [of "\<lparr>m_cutoff_freq = 1, m_prev_output = 2\<rparr>" 1 2
        "2 * pi * 1 * 1" 1 "2 * pi * 1 * 1 / (2 * pi * 1 * 1 + 1)"
        "2 * pi * 1 * 1 / (2 * pi * 1 * 1 + 1) * 3 + (1 - 2 * pi * 1 * 1 / (2 * pi * 1 * 1 + 1)) * 2" 3]
      nz by simp
qed

text \<open>
  Claim C2. For a high-pass filter with cutoff frequency \<open>c \<ge> 0\<close>, stored previous
  output \<open>p\<close> and stored previous input \<open>v\<close>, a call \<^verbatim>\<open>filter(value, dt)\<close> returns
  \<open>alpha * (p + (value - v))\<close>, where \<open>alpha = 1 / (2 * pi * dt * c + 1)\<close>, sets the
  previous input to \<open>value\<close> and stores the returned value as the new previous
  output. The quotient is Python's float division: it exists unless the
  denominator is zero, which no \<open>dt \<ge> 0\<close> can cause; in that case the call raises
  \<^verbatim>\<open>ZeroDivisionError\<close> after the previous input has been set.
\<close>

theorem HighPassFilter_filter_formula:
  assumes "m_cutoff_freq self = c" and "0 \<le> c" and "m_prev_output self = p"
    and "m_prev_value self = v"
    and "alpha = 1 / (2 * pi * dt * c + 1)"
    and "output = alpha * (p + (value - v))"
  shows "HighPassFilter_filter self value dt =
           (if 2 * pi * dt * c + 1 = 0
            then (Inl ZeroDivisionError, self\<lparr>m_prev_value := value\<rparr>)
            else (Inr output, self\<lparr>m_prev_value := value, m_prev_output := output\<rparr>))
         \<and> (0 \<le> dt \<longrightarrow> 2 * pi * dt * c + 1 \<noteq> 0)"
proof (intro conjI)
  show "HighPassFilter_filter self value dt =
           (if 2 * pi * dt * c + 1 = 0
            then (Inl ZeroDivisionError, self\<lparr>m_prev_value := value\<rparr>)
            else (Inr output, self\<lparr>m_prev_value := value, m_prev_output := output\<rparr>))"
    using assms by (simp add: HighPassFilter_filter_eq)
  show "0 \<le> dt \<longrightarrow> 2 * pi * dt * c + 1 \<noteq> 0"
    using assms denominator_nonzero [of c dt] by simp
qed

text \<open>
  The theorem at cutoff frequency 1, previous output 2, previous input 4, value 7
  and \<open>dt = 1\<close>.
\<close>

theorem HighPassFilter_filter_formula_witness:
  "HighPassFilter_filter \<lparr>m_cutoff_freq = 1, m_prev_output = 2, m_prev_value = 4\<rparr> 7 1 =
     (Inr (1 / (2 * pi + 1) * (2 + (7 - 4))),
      \<lparr>m_cutoff_freq = 1, m_prev_output = 1 / (2 * pi + 1) * (2 + (7 - 4)),
       m_prev_value = 7\<rparr>)"
proof -
  have nz: "2 * pi + 1 \<noteq> 0" using denominator_nonzero [of 1 1] by simp
  show ?thesis
    using HighPassFilter_filter_formula [of
        "\<lparr>m_cutoff_freq = 1, m_prev_output = 2, m_prev_value = 4\<rparr>" 1 2 4
        "1 / (2 * pi * 1 * 1 + 1)" 1 "1 / (2 * pi * 1 * 1 + 1) * (2 + (7 - 4))" 7]
      nz by simp
qed


subsection \<open>Setting the cutoff frequencies\<close>

lemma set_cutoff_freq_eq:
  "SingleCutoffFreqFilter_set_cutoff_freq self cutoff_freq =
     (if cutoff_freq < 0 then (Inl ValueError, self)
      else (Inr (), self\<lparr>m_cutoff_freq := cutoff_freq\<rparr>))"
  by (simp add: SingleCutoffFreqFilter_set_cutoff_freq_def
      SingleCutoffFreqFilter__check_cutoff_freq_def)

text \<open>
  \<^verbatim>\<open>set_cutoff_freqs\<close> of a band filter is rejected exactly when the low cutoff is
  above the high one or negative (the second by the sub-filter's own check), and
  then nothing has been assigned; otherwise both sub-filters get their new cutoff
  frequency and keep the rest of their state.
\<close>

lemma BandPassFilter_set_cutoff_freqs_eq:
  "BandPassFilter_set_cutoff_freqs self low high =
     (if low > high \<or> low < 0 then (Inl ValueError, self)
      else (Inr (), \<lparr>bp_hpf = (bp_hpf self)\<lparr>m_cutoff_freq := low\<rparr>,
                     bp_lpf = (bp_lpf self)\<lparr>m_cutoff_freq := high\<rparr>\<rparr>))"
  by (auto simp add: BandPassFilter_set_cutoff_freqs_def set_cutoff_freq_eq
      LowHighCutoffFreqsFilter_set_cutoff_freqs_def
      LowHighCutoffFreqsFilter__check_cutoff_freqs_def)

lemma BandStopFilter_set_cutoff_freqs_eq:
  "BandStopFilter_set_cutoff_freqs self low high =
     (if low > high \<or> low < 0 then (Inl ValueError, self)
      else (Inr (), \<lparr>bs_lpf = (bs_lpf self)\<lparr>m_cutoff_freq := low\<rparr>,
                     bs_hpf = (bs_hpf self)\<lparr>m_cutoff_freq := high\<rparr>\<rparr>))"
  by (auto simp add: BandStopFilter_set_cutoff_freqs_def set_cutoff_freq_eq
      LowHighCutoffFreqsFilter_set_cutoff_freqs_def
      LowHighCutoffFreqsFilter__check_cutoff_freqs_def)

lemma BandPassFilter_init_eq:
  "BandPassFilter_init low high init_value =
     (if low > high \<or> low < 0 then Inl ValueError
      else Inr \<lparr>bp_hpf = \<lparr>m_cutoff_freq = low, m_prev_output = init_value,
                          m_prev_value = init_value\<rparr>,
                bp_lpf = \<lparr>m_cutoff_freq = high, m_prev_output = init_value\<rparr>\<rparr>)"
  by (simp add: BandPassFilter_init_def LowHighCutoffFreqsFilter_init_def
      LowHighCutoffFreqsFilter__check_cutoff_freqs_def HighPassFilter_init_def
      LowPassFilter_init_def SingleCutoffFreqFilter_init_def
      SingleCutoffFreqFilter__check_cutoff_freq_def)

lemma BandStopFilter_init_eq:
  "BandStopFilter_init low high init_value =
     (if low > high \<or> low < 0 then Inl ValueError
      else Inr \<lparr>bs_lpf = \<lparr>m_cutoff_freq = low, m_prev_output = init_value\<rparr>,
                bs_hpf = \<lparr>m_cutoff_freq = high, m_prev_output = init_value,
                          m_prev_value = init_value\<rparr>\<rparr>)"
  by (simp add: BandStopFilter_init_def LowHighCutoffFreqsFilter_init_def
      LowHighCutoffFreqsFilter__check_cutoff_freqs_def HighPassFilter_init_def
      LowPassFilter_init_def SingleCutoffFreqFilter_init_def
      SingleCutoffFreqFilter__check_cutoff_freq_def)

text \<open>
  Claim C5. \<^verbatim>\<open>set_cutoff_freq\<close> with a negative value on a low-pass or high-pass
  filter, and \<^verbatim>\<open>set_cutoff_freqs\<close> with the low cutoff above the high one on a
  band-pass or band-stop filter, raise \<^verbatim>\<open>ValueError\<close> (the specification's
  InvalidParameter) and return the object with every field as it was, the
  sub-filters included; the constructors reject the same arguments, and then no
  object exists. Moreover no rejected \<^verbatim>\<open>set_cutoff_freqs\<close> call, whatever its
  arguments \<open>lo\<close> and \<open>hi\<close>, changes a band filter.
\<close>

theorem rejected_setter_keeps_state:
  fixes lpf :: LowPassFilter and hpf :: HighPassFilter
    and bpf :: BandPassFilter and bsf :: BandStopFilter
  assumes "cutoff_freq < 0" and "low_cutoff_freq > high_cutoff_freq"
  shows "SingleCutoffFreqFilter_set_cutoff_freq lpf cutoff_freq = (Inl ValueError, lpf)
         \<and> SingleCutoffFreqFilter_set_cutoff_freq hpf cutoff_freq = (Inl ValueError, hpf)
         \<and> BandPassFilter_set_cutoff_freqs bpf low_cutoff_freq high_cutoff_freq
             = (Inl ValueError, bpf)
         \<and> BandStopFilter_set_cutoff_freqs bsf low_cutoff_freq high_cutoff_freq
             = (Inl ValueError, bsf)
         \<and> LowPassFilter_init cutoff_freq init_value = Inl ValueError
         \<and> HighPassFilter_init cutoff_freq init_value = Inl ValueError
         \<and> BandPassFilter_init low_cutoff_freq high_cutoff_freq init_value = Inl ValueError
         \<and> BandStopFilter_init low_cutoff_freq high_cutoff_freq init_value = Inl ValueError
         \<and> (fst (BandPassFilter_set_cutoff_freqs bpf lo hi) \<noteq> Inr ()
              \<longrightarrow> BandPassFilter_set_cutoff_freqs bpf lo hi = (Inl ValueError, bpf))
         \<and> (fst (BandStopFilter_set_cutoff_freqs bsf lo hi) \<noteq> Inr ()
              \<longrightarrow> BandStopFilter_set_cutoff_freqs bsf lo hi = (Inl ValueError, bsf))"
proof -
  have single: "SingleCutoffFreqFilter_set_cutoff_freq lpf cutoff_freq = (Inl ValueError, lpf)"
    "SingleCutoffFreqFilter_set_cutoff_freq hpf cutoff_freq = (Inl ValueError, hpf)"
    using assms(1) by (simp_all add: set_cutoff_freq_eq)
  have band: "BandPassFilter_set_cutoff_freqs bpf low_cutoff_freq high_cutoff_freq
                = (Inl ValueError, bpf)"
    "BandStopFilter_set_cutoff_freqs bsf low_cutoff_freq high_cutoff_freq
                = (Inl ValueError, bsf)"
    using assms(2)
    by (simp_all add: BandPassFilter_set_cutoff_freqs_eq BandStopFilter_set_cutoff_freqs_eq)
  have init1: "LowPassFilter_init cutoff_freq init_value = Inl ValueError"
    "HighPassFilter_init cutoff_freq init_value = Inl ValueError"
    using assms(1)
    by (simp_all add: LowPassFilter_init_def HighPassFilter_init_def
        SingleCutoffFreqFilter_init_def SingleCutoffFreqFilter__check_cutoff_freq_def)
  have init2: "BandPassFilter_init low_cutoff_freq high_cutoff_freq init_value = Inl ValueError"
    "BandStopFilter_init low_cutoff_freq high_cutoff_freq init_value = Inl ValueError"
    using assms(2) by (simp_all add: BandPassFilter_init_eq BandStopFilter_init_eq)
  have any: "fst (BandPassFilter_set_cutoff_freqs bpf lo hi) \<noteq> Inr ()
              \<longrightarrow> BandPassFilter_set_cutoff_freqs bpf lo hi = (Inl ValueError, bpf)"
    "fst (BandStopFilter_set_cutoff_freqs bsf lo hi) \<noteq> Inr ()
              \<longrightarrow> BandStopFilter_set_cutoff_freqs bsf lo hi = (Inl ValueError, bsf)"
    by (simp_all add: BandPassFilter_set_cutoff_freqs_eq BandStopFilter_set_cutoff_freqs_eq)
  from single band init1 init2 any show ?thesis by blast
qed

text \<open>
  The theorem at cutoff frequency \<open>-1\<close>, at the cutoff pair \<open>(10, 5)\<close>, and at the pair
  \<open>(-1, 5)\<close>, which is ordered but rejected by the sub-filter.
\<close>

theorem rejected_setter_keeps_state_witness:
  "SingleCutoffFreqFilter_set_cutoff_freq \<lparr>m_cutoff_freq = 1, m_prev_output = 2\<rparr> (- 1)
     = (Inl ValueError, \<lparr>m_cutoff_freq = 1, m_prev_output = 2\<rparr>)
   \<and> SingleCutoffFreqFilter_set_cutoff_freq
       \<lparr>m_cutoff_freq = 1, m_prev_output = 2, m_prev_value = 4\<rparr> (- 1)
     = (Inl ValueError, \<lparr>m_cutoff_freq = 1, m_prev_output = 2, m_prev_value = 4\<rparr>)
   \<and> BandPassFilter_set_cutoff_freqs
       \<lparr>bp_hpf = \<lparr>m_cutoff_freq = 1, m_prev_output = 2, m_prev_value = 4\<rparr>,
        bp_lpf = \<lparr>m_cutoff_freq = 3, m_prev_output = 5\<rparr>\<rparr> 10 5
     = (Inl ValueError,
        \<lparr>bp_hpf = \<lparr>m_cutoff_freq = 1, m_prev_output = 2, m_prev_value = 4\<rparr>,
         bp_lpf = \<lparr>m_cutoff_freq = 3, m_prev_output = 5\<rparr>\<rparr>)
   \<and> BandStopFilter_set_cutoff_freqs
       \<lparr>bs_lpf = \<lparr>m_cutoff_freq = 1, m_prev_output = 5\<rparr>,
        bs_hpf = \<lparr>m_cutoff_freq = 3, m_prev_output = 2, m_prev_value = 4\<rparr>\<rparr> 10 5
     = (Inl ValueError,
        \<lparr>bs_lpf = \<lparr>m_cutoff_freq = 1, m_prev_output = 5\<rparr>,
         bs_hpf = \<lparr>m_cutoff_freq = 3, m_prev_output = 2, m_prev_value = 4\<rparr>\<rparr>)
   \<and> LowPassFilter_init (- 1) 0 = Inl ValueError
   \<and> HighPassFilter_init (- 1) 0 = Inl ValueError
   \<and> BandPassFilter_init 10 5 0 = Inl ValueError
   \<and> BandStopFilter_init 10 5 0 = Inl ValueError
   \<and> BandPassFilter_set_cutoff_freqs
       \<lparr>bp_hpf = \<lparr>m_cutoff_freq = 1, m_prev_output = 2, m_prev_value = 4\<rparr>,
        bp_lpf = \<lparr>m_cutoff_freq = 3, m_prev_output = 5\<rparr>\<rparr> (- 1) 5
     = (Inl ValueError,
        \<lparr>bp_hpf = \<lparr>m_cutoff_freq = 1, m_prev_output = 2, m_prev_value = 4\<rparr>,
         bp_lpf = \<lparr>m_cutoff_freq = 3, m_prev_output = 5\<rparr>\<rparr>)
   \<and> BandStopFilter_set_cutoff_freqs
       \<lparr>bs_lpf = \<lparr>m_cutoff_freq = 1, m_prev_output = 5\<rparr>,
        bs_hpf = \<lparr>m_cutoff_freq = 3, m_prev_output = 2, m_prev_value = 4\<rparr>\<rparr> (- 1) 5
     = (Inl ValueError,
        \<lparr>bs_lpf = \<lparr>m_cutoff_freq = 1, m_prev_output = 5\<rparr>,
         bs_hpf = \<lparr>m_cutoff_freq = 3, m_prev_output = 2, m_prev_value = 4\<rparr>\<rparr>)"
proof -
  have h1: "(- 1 :: real) < 0" by simp
  have h2: "(10 :: real) > 5" by simp
  have rejected:
    "fst (BandPassFilter_set_cutoff_freqs
       \<lparr>bp_hpf = \<lparr>m_cutoff_freq = 1, m_prev_output = 2, m_prev_value = 4\<rparr>,
        bp_lpf = \<lparr>m_cutoff_freq = 3, m_prev_output = 5\<rparr>\<rparr> (- 1) 5) \<noteq> Inr ()"
    "fst (BandStopFilter_set_cutoff_freqs
       \<lparr>bs_lpf = \<lparr>m_cutoff_freq = 1, m_prev_output = 5\<rparr>,
        bs_hpf = \<lparr>m_cutoff_freq = 3, m_prev_output = 2, m_prev_value = 4\<rparr>\<rparr> (- 1) 5) \<noteq> Inr ()"
    by (simp_all add: BandPassFilter_set_cutoff_freqs_def BandStopFilter_set_cutoff_freqs_def
        LowHighCutoffFreqsFilter_set_cutoff_freqs_def
        LowHighCutoffFreqsFilter__check_cutoff_freqs_def
        SingleCutoffFreqFilter_set_cutoff_freq_def
        SingleCutoffFreqFilter__check_cutoff_freq_def)
  show ?thesis
    using rejected rejected_setter_keeps_state [OF h1 h2, of
      "\<lparr>m_cutoff_freq = 1, m_prev_output = 2\<rparr>"
      "\<lparr>m_cutoff_freq = 1, m_prev_output = 2, m_prev_value = 4\<rparr>"
      "\<lparr>bp_hpf = \<lparr>m_cutoff_freq = 1, m_prev_output = 2, m_prev_value = 4\<rparr>,
        bp_lpf = \<lparr>m_cutoff_freq = 3, m_prev_output = 5\<rparr>\<rparr>"
      "\<lparr>bs_lpf = \<lparr>m_cutoff_freq = 1, m_prev_output = 5\<rparr>,
        bs_hpf = \<lparr>m_cutoff_freq = 3, m_prev_output = 2, m_prev_value = 4\<rparr>\<rparr>" 0 "- 1" 5]
    by blast
qed

text \<open>
  Claim C10. A successful \<^verbatim>\<open>set_cutoff_freq\<close> on a low-pass or high-pass filter
  changes the stored cutoff frequency only: the previous output, and for a
  high-pass filter the previous input too, keep their values.
\<close>

theorem set_cutoff_freq_frame:
  fixes lpf :: LowPassFilter and hpf :: HighPassFilter
  assumes "0 \<le> cutoff_freq"
  shows "SingleCutoffFreqFilter_set_cutoff_freq lpf cutoff_freq =
           (Inr (), \<lparr>m_cutoff_freq = cutoff_freq, m_prev_output = m_prev_output lpf\<rparr>)
         \<and> SingleCutoffFreqFilter_set_cutoff_freq hpf cutoff_freq =
           (Inr (), \<lparr>m_cutoff_freq = cutoff_freq, m_prev_output = m_prev_output hpf,
                     m_prev_value = m_prev_value hpf\<rparr>)"
  using assms by (simp add: set_cutoff_freq_eq)

text \<open>The theorem at the new cutoff frequency 3.\<close>

theorem set_cutoff_freq_frame_witness:
  "SingleCutoffFreqFilter_set_cutoff_freq \<lparr>m_cutoff_freq = 1, m_prev_output = 2\<rparr> 3 =
     (Inr (), \<lparr>m_cutoff_freq = 3, m_prev_output = 2\<rparr>)
   \<and> SingleCutoffFreqFilter_set_cutoff_freq
       \<lparr>m_cutoff_freq = 1, m_prev_output = 2, m_prev_value = 4\<rparr> 3 =
     (Inr (), \<lparr>m_cutoff_freq = 3, m_prev_output = 2, m_prev_value = 4\<rparr>)"
  using set_cutoff_freq_frame [of 3 "\<lparr>m_cutoff_freq = 1, m_prev_output = 2\<rparr>"
      "\<lparr>m_cutoff_freq = 1, m_prev_output = 2, m_prev_value = 4\<rparr>"]
  by simp

subsection \<open>The band filters as compositions\<close>

lemma LowPassFilter_filter_error:
  "LowPassFilter_filter lpf value dt = (Inl e, lpf') \<Longrightarrow> e = ZeroDivisionError"
  by (simp add: LowPassFilter_filter_eq split: if_splits)

lemma HighPassFilter_filter_error:
  "HighPassFilter_filter hpf value dt = (Inl e, hpf') \<Longrightarrow> e = ZeroDivisionError"
  by (simp add: HighPassFilter_filter_eq split: if_splits)

lemma filter_seq_LowPassFilter_error:
  "filter_seq LowPassFilter_filter lpf inputs = Inl e \<Longrightarrow> e = ZeroDivisionError"
proof (induction inputs arbitrary: lpf)
  case Nil
  then show ?case by simp
next
  case (Cons x rest)
  obtain v dt where x: "x = (v, dt)" by (cases x)
  obtain r lpf' where step: "LowPassFilter_filter lpf v dt = (r, lpf')"
    by (cases "LowPassFilter_filter lpf v dt")
  show ?case
  proof (cases r)
    case (Inl e')
    with Cons.prems x step have "e = e'" by simp
    with Inl step show ?thesis using LowPassFilter_filter_error by blast
  next
    case (Inr y)
    with Cons.prems x step have "filter_seq LowPassFilter_filter lpf' rest = Inl e"
      by (simp split: sum.splits)
    then show ?thesis by (rule Cons.IH)
  qed
qed

text \<open>
  One call of a band filter on non-negative cutoff frequencies and \<open>dt \<ge> 0\<close>
  returns, and leaves the cutoff frequencies as they were; so does a whole run.
\<close>

lemma BandPassFilter_filter_returns:
  assumes "0 \<le> m_cutoff_freq hpf" and "0 \<le> m_cutoff_freq lpf" and "0 \<le> dt"
  shows "\<exists>y hpf' lpf'.
           BandPassFilter_filter \<lparr>bp_hpf = hpf, bp_lpf = lpf\<rparr> v dt
             = (Inr y, \<lparr>bp_hpf = hpf', bp_lpf = lpf'\<rparr>)
           \<and> m_cutoff_freq hpf' = m_cutoff_freq hpf
           \<and> m_cutoff_freq lpf' = m_cutoff_freq lpf"
proof -
  have h: "2 * pi * dt * m_cutoff_freq hpf + 1 \<noteq> 0"
    using assms by (simp add: denominator_nonzero)
  have l: "2 * pi * dt * m_cutoff_freq lpf + 1 \<noteq> 0"
    using assms by (simp add: denominator_nonzero)
  show ?thesis
    using h l
    by (simp add: BandPassFilter_filter_def Filter_call_def HighPassFilter_filter_eq
        LowPassFilter_filter_eq)
qed

lemma BandPassFilter_filter_seq_returns:
  assumes "0 \<le> m_cutoff_freq hpf" and "0 \<le> m_cutoff_freq lpf"
    and "\<forall>x \<in> set inputs. 0 \<le> snd x"
  shows "\<exists>ys. filter_seq BandPassFilter_filter \<lparr>bp_hpf = hpf, bp_lpf = lpf\<rparr> inputs = Inr ys
              \<and> length ys = length inputs"
  using assms
proof (induction inputs arbitrary: hpf lpf)
  case Nil
  show ?case by simp
next
  case (Cons x rest)
  obtain v dt where x: "x = (v, dt)" by (cases x)
  with Cons.prems have dt: "0 \<le> dt" by simp
  from BandPassFilter_filter_returns [OF Cons.prems(1) Cons.prems(2) dt, of v]
  obtain y hpf' lpf' where
    step: "BandPassFilter_filter \<lparr>bp_hpf = hpf, bp_lpf = lpf\<rparr> v dt
             = (Inr y, \<lparr>bp_hpf = hpf', bp_lpf = lpf'\<rparr>)"
    and h: "m_cutoff_freq hpf' = m_cutoff_freq hpf"
    and l: "m_cutoff_freq lpf' = m_cutoff_freq lpf"
    by blast
  from Cons.prems h l have "0 \<le> m_cutoff_freq hpf'" and "0 \<le> m_cutoff_freq lpf'"
    and "\<forall>x \<in> set rest. 0 \<le> snd x" by simp_all
  from Cons.IH [OF this] obtain ys where
    "filter_seq BandPassFilter_filter \<lparr>bp_hpf = hpf', bp_lpf = lpf'\<rparr> rest = Inr ys"
    and "length ys = length rest" by blast
  with x step show ?case by simp
qed

lemma BandStopFilter_filter_returns:
  assumes "0 \<le> m_cutoff_freq lpf" and "0 \<le> m_cutoff_freq hpf" and "0 \<le> dt"
  shows "\<exists>y lpf' hpf'.
           BandStopFilter_filter \<lparr>bs_lpf = lpf, bs_hpf = hpf\<rparr> v dt
             = (Inr y, \<lparr>bs_lpf = lpf', bs_hpf = hpf'\<rparr>)
           \<and> m_cutoff_freq lpf' = m_cutoff_freq lpf
           \<and> m_cutoff_freq hpf' = m_cutoff_freq hpf"
proof -
  have h: "2 * pi * dt * m_cutoff_freq hpf + 1 \<noteq> 0"
    using assms by (simp add: denominator_nonzero)
  have l: "2 * pi * dt * m_cutoff_freq lpf + 1 \<noteq> 0"
    using assms by (simp add: denominator_nonzero)
  show ?thesis
    using h l
    by (simp add: BandStopFilter_filter_def Filter_call_def HighPassFilter_filter_eq
        LowPassFilter_filter_eq)
qed

lemma BandStopFilter_filter_seq_returns:
  assumes "0 \<le> m_cutoff_freq lpf" and "0 \<le> m_cutoff_freq hpf"
    and "\<forall>x \<in> set inputs. 0 \<le> snd x"
  shows "\<exists>ys. filter_seq BandStopFilter_filter \<lparr>bs_lpf = lpf, bs_hpf = hpf\<rparr> inputs = Inr ys
              \<and> length ys = length inputs"
  using assms
proof (induction inputs arbitrary: hpf lpf)
  case Nil
  show ?case by simp
next
  case (Cons x rest)
  obtain v dt where x: "x = (v, dt)" by (cases x)
  with Cons.prems have dt: "0 \<le> dt" by simp
  from BandStopFilter_filter_returns [OF Cons.prems(1) Cons.prems(2) dt, of v]
  obtain y lpf' hpf' where
    step: "BandStopFilter_filter \<lparr>bs_lpf = lpf, bs_hpf = hpf\<rparr> v dt
             = (Inr y, \<lparr>bs_lpf = lpf', bs_hpf = hpf'\<rparr>)"
    and l: "m_cutoff_freq lpf' = m_cutoff_freq lpf"
    and h: "m_cutoff_freq hpf' = m_cutoff_freq hpf"
    by blast
  from Cons.prems h l have "0 \<le> m_cutoff_freq lpf'" and "0 \<le> m_cutoff_freq hpf'"
    and "\<forall>x \<in> set rest. 0 \<le> snd x" by simp_all
  from Cons.IH [OF this] obtain ys where
    "filter_seq BandStopFilter_filter \<lparr>bs_lpf = lpf', bs_hpf = hpf'\<rparr> rest = Inr ys"
    and "length ys = length rest" by blast
  with x step show ?case by simp
qed

lemma BandPassFilter_outputs_returns:
  assumes "0 \<le> low" and "low \<le> high" and "\<forall>x \<in> set inputs. 0 \<le> snd x"
  shows "\<exists>ys. BandPassFilter_outputs low high init_value inputs = Inr ys
              \<and> length ys = length inputs"
  using assms
  by (simp add: BandPassFilter_outputs_def BandPassFilter_init_eq
      BandPassFilter_filter_seq_returns)

lemma BandStopFilter_outputs_returns:
  assumes "0 \<le> low" and "low \<le> high" and "\<forall>x \<in> set inputs. 0 \<le> snd x"
  shows "\<exists>ys. BandStopFilter_outputs low high init_value inputs = Inr ys
              \<and> length ys = length inputs"
  using assms
  by (simp add: BandStopFilter_outputs_def BandStopFilter_init_eq
      BandStopFilter_filter_seq_returns)

text \<open>
  A run of a band-pass filter is a run of the cascade on its two sub-filters:
  induction on the inputs, for any state of the sub-filters.
\<close>

lemma BandPassFilter_filter_seq:
  "filter_seq BandPassFilter_filter \<lparr>bp_hpf = hpf, bp_lpf = lpf\<rparr> inputs =
     filter_seq spec_cascade_filter (hpf, lpf) inputs"
proof (induction inputs arbitrary: hpf lpf)
  case Nil
  show ?case by simp
next
  case (Cons x rest)
  obtain v dt where x: "x = (v, dt)" by (cases x)
  obtain r hpf' where hp: "HighPassFilter_filter hpf v dt = (r, hpf')"
    by (cases "HighPassFilter_filter hpf v dt")
  show ?case
  proof (cases r)
    case (Inl e)
    with x hp show ?thesis
      by (simp add: BandPassFilter_filter_def Filter_call_def spec_cascade_filter_def)
  next
    case (Inr y)
    obtain r2 lpf' where lp: "LowPassFilter_filter lpf y dt = (r2, lpf')"
      by (cases "LowPassFilter_filter lpf y dt")
    show ?thesis
    proof (cases r2)
      case (Inl e)
      with x hp Inr lp show ?thesis
        by (simp add: BandPassFilter_filter_def Filter_call_def spec_cascade_filter_def)
    next
      case (Inr z)
      with x hp \<open>r = Inr y\<close> lp Cons.IH [of hpf' lpf'] show ?thesis
        by (simp add: BandPassFilter_filter_def Filter_call_def spec_cascade_filter_def)
    qed
  qed
qed

text \<open>
  A run of a band-stop filter against the two separate runs. When the high-pass
  sub-filter raises at some call, the separate low-pass run may raise at a later
  one; both are the same exception.
\<close>

lemma BandStopFilter_filter_seq:
  "filter_seq BandStopFilter_filter \<lparr>bs_lpf = lpf, bs_hpf = hpf\<rparr> inputs =
     (case filter_seq LowPassFilter_filter lpf inputs of
        Inl e \<Rightarrow> Inl e
      | Inr ys \<Rightarrow>
         (case filter_seq HighPassFilter_filter hpf inputs of
            Inl e \<Rightarrow> Inl e
          | Inr zs \<Rightarrow> Inr (map2 (+) ys zs)))"
proof (induction inputs arbitrary: hpf lpf)
  case Nil
  show ?case by simp
next
  case (Cons x rest)
  obtain v dt where x: "x = (v, dt)" by (cases x)
  obtain r1 lpf' where lp: "LowPassFilter_filter lpf v dt = (r1, lpf')"
    by (cases "LowPassFilter_filter lpf v dt")
  obtain r2 hpf' where hp: "HighPassFilter_filter hpf v dt = (r2, hpf')"
    by (cases "HighPassFilter_filter hpf v dt")
  show ?case
  proof (cases r1)
    case (Inl e)
    with x lp show ?thesis
      by (simp add: BandStopFilter_filter_def Filter_call_def)
  next
    case r1: (Inr y)
    show ?thesis
    proof (cases r2)
      case (Inl e)
      then have e: "e = ZeroDivisionError" using hp HighPassFilter_filter_error by blast
      show ?thesis
      proof (cases "filter_seq LowPassFilter_filter lpf' rest")
        case (Inl e')
        then have "e' = ZeroDivisionError" by (rule filter_seq_LowPassFilter_error)
        with Inl \<open>r2 = Inl e\<close> e r1 x lp hp show ?thesis
          by (simp add: BandStopFilter_filter_def Filter_call_def)
      next
        case (Inr ys)
        with \<open>r2 = Inl e\<close> e r1 x lp hp show ?thesis
          by (simp add: BandStopFilter_filter_def Filter_call_def)
      qed
    next
      case r2: (Inr z)
      from r1 r2 x lp hp Cons.IH [of lpf' hpf'] show ?thesis
        by (simp add: BandStopFilter_filter_def Filter_call_def split: sum.splits)
    qed
  qed
qed

lemma filter_seq_HighPassFilter_error:
  "filter_seq HighPassFilter_filter hpf inputs = Inl e \<Longrightarrow> e = ZeroDivisionError"
proof (induction inputs arbitrary: hpf)
  case Nil
  then show ?case by simp
next
  case (Cons x rest)
  obtain v dt where x: "x = (v, dt)" by (cases x)
  obtain r hpf' where step: "HighPassFilter_filter hpf v dt = (r, hpf')"
    by (cases "HighPassFilter_filter hpf v dt")
  show ?case
  proof (cases r)
    case (Inl e')
    with Cons.prems x step have "e = e'" by simp
    with Inl step show ?thesis using HighPassFilter_filter_error by blast
  next
    case (Inr y)
    with Cons.prems x step have "filter_seq HighPassFilter_filter hpf' rest = Inl e"
      by (simp split: sum.splits)
    then show ?thesis by (rule Cons.IH)
  qed
qed

text \<open>
  The cascade call by call against the cascade on whole sequences. When the
  low-pass filter raises at some call, the separate high-pass run may raise at a
  later one; both are the same exception.
\<close>

lemma spec_cascade_filter_seq:
  "filter_seq spec_cascade_filter (hpf, lpf) inputs =
     (case filter_seq HighPassFilter_filter hpf inputs of
        Inl e \<Rightarrow> Inl e
      | Inr ys \<Rightarrow> filter_seq LowPassFilter_filter lpf (zip ys (map snd inputs)))"
proof (induction inputs arbitrary: hpf lpf)
  case Nil
  show ?case by simp
next
  case (Cons x rest)
  obtain v dt where x: "x = (v, dt)" by (cases x)
  obtain r hpf' where hp: "HighPassFilter_filter hpf v dt = (r, hpf')"
    by (cases "HighPassFilter_filter hpf v dt")
  show ?case
  proof (cases r)
    case (Inl e)
    with x hp show ?thesis by (simp add: spec_cascade_filter_def)
  next
    case r: (Inr y)
    obtain r2 lpf' where lp: "LowPassFilter_filter lpf y dt = (r2, lpf')"
      by (cases "LowPassFilter_filter lpf y dt")
    show ?thesis
    proof (cases r2)
      case (Inl e)
      then have e: "e = ZeroDivisionError" using lp LowPassFilter_filter_error by blast
      show ?thesis
      proof (cases "filter_seq HighPassFilter_filter hpf' rest")
        case (Inl e')
        then have "e' = ZeroDivisionError" by (rule filter_seq_HighPassFilter_error)
        with Inl \<open>r2 = Inl e\<close> e r x hp lp show ?thesis
          by (simp add: spec_cascade_filter_def)
      next
        case (Inr ys)
        with \<open>r2 = Inl e\<close> r x hp lp show ?thesis
          by (simp add: spec_cascade_filter_def)
      qed
    next
      case r2: (Inr z)
      from r r2 x hp lp Cons.IH [of hpf' lpf'] show ?thesis
        by (simp add: spec_cascade_filter_def split: sum.splits)
    qed
  qed
qed

lemma spec_cascade_outputs_example:
  "spec_cascade_outputs 0 1 0 [(1, 1)] = Inr [2 * pi / (2 * pi + 1)]"
  using denominator_nonzero [of 1 1]
  by (simp add: spec_cascade_outputs_def spec_cascade_filter_def HighPassFilter_init_def
      LowPassFilter_init_def SingleCutoffFreqFilter_init_def
      SingleCutoffFreqFilter__check_cutoff_freq_def HighPassFilter_filter_eq
      LowPassFilter_filter_eq)

lemma spec_parallel_outputs_example:
  "spec_parallel_outputs 0 1 0 [(1, 1)] = Inr [1 / (2 * pi + 1)]"
  using denominator_nonzero [of 1 1]
  by (simp add: spec_parallel_outputs_def HighPassFilter_init_def
      LowPassFilter_init_def SingleCutoffFreqFilter_init_def
      SingleCutoffFreqFilter__check_cutoff_freq_def HighPassFilter_filter_eq
      LowPassFilter_filter_eq)

text \<open>
  Claim C3. For every \<open>low \<le> high\<close>, every initial value and every finite sequence
  of inputs \<open>(value, dt)\<close>, a freshly constructed
  \<^verbatim>\<open>BandPassFilter(low, high, init_value)\<close> produces the outputs of the cascade of a
  fresh \<^verbatim>\<open>HighPassFilter(low, init_value)\<close> followed by a fresh
  \<^verbatim>\<open>LowPassFilter(high, init_value)\<close>: each value goes through the high-pass filter
  and its output through the low-pass filter, call by call or, what is the same,
  one whole sequence after the other. Both sides raise the same exception
  when one does (a negative \<open>low\<close> at construction, a zero denominator in a call);
  with \<open>low \<ge> 0\<close> and every \<open>dt \<ge> 0\<close> there is one output for each input.
\<close>

theorem BandPassFilter_is_cascade:
  assumes "low \<le> high"
  shows "BandPassFilter_outputs low high init_value inputs =
           spec_cascade_outputs low high init_value inputs
         \<and> BandPassFilter_outputs low high init_value inputs =
           spec_cascade_stream_outputs low high init_value inputs
         \<and> (0 \<le> low \<and> (\<forall>x \<in> set inputs. 0 \<le> snd x) \<longrightarrow>
              (\<exists>ys. BandPassFilter_outputs low high init_value inputs = Inr ys
                    \<and> length ys = length inputs))"
proof (intro conjI)
  show "BandPassFilter_outputs low high init_value inputs =
           spec_cascade_outputs low high init_value inputs"
    using assms
    by (simp add: BandPassFilter_outputs_def spec_cascade_outputs_def BandPassFilter_init_eq
        HighPassFilter_init_def LowPassFilter_init_def SingleCutoffFreqFilter_init_def
        SingleCutoffFreqFilter__check_cutoff_freq_def BandPassFilter_filter_seq)
  show "BandPassFilter_outputs low high init_value inputs =
           spec_cascade_stream_outputs low high init_value inputs"
    using assms
    by (simp add: BandPassFilter_outputs_def spec_cascade_stream_outputs_def
        BandPassFilter_init_eq HighPassFilter_init_def LowPassFilter_init_def
        SingleCutoffFreqFilter_init_def SingleCutoffFreqFilter__check_cutoff_freq_def
        BandPassFilter_filter_seq spec_cascade_filter_seq)
  show "0 \<le> low \<and> (\<forall>x \<in> set inputs. 0 \<le> snd x) \<longrightarrow>
              (\<exists>ys. BandPassFilter_outputs low high init_value inputs = Inr ys
                    \<and> length ys = length inputs)"
    using assms BandPassFilter_outputs_returns [of low high inputs init_value] by blast
qed

text \<open>
  The theorem at cutoff frequencies 0 and 1, initial value 0 and the one input
  \<open>(1, 1)\<close>: the high-pass filter passes the step, the low-pass filter smooths it.
\<close>

theorem BandPassFilter_is_cascade_witness:
  "BandPassFilter_outputs 0 1 0 [(1, 1)] = spec_cascade_outputs 0 1 0 [(1, 1)]
   \<and> BandPassFilter_outputs 0 1 0 [(1, 1)] = spec_cascade_stream_outputs 0 1 0 [(1, 1)]
   \<and> BandPassFilter_outputs 0 1 0 [(1, 1)] = Inr [2 * pi / (2 * pi + 1)]"
proof -
  have h: "(0 :: real) \<le> 1" by simp
  from BandPassFilter_is_cascade [OF h, of 0 "[(1, 1)]"]
  have eq1: "BandPassFilter_outputs 0 1 0 [(1, 1)] = spec_cascade_outputs 0 1 0 [(1, 1)]"
    and eq2: "BandPassFilter_outputs 0 1 0 [(1, 1)]
                = spec_cascade_stream_outputs 0 1 0 [(1, 1)]"
    by blast+
  from eq1 spec_cascade_outputs_example
  have "BandPassFilter_outputs 0 1 0 [(1, 1)] = Inr [2 * pi / (2 * pi + 1)]"
    by (rule trans)
  with eq1 eq2 show ?thesis by blast
qed

text \<open>
  Claim C4. For every \<open>low \<le> high\<close>, every initial value and every finite sequence
  of inputs \<open>(value, dt)\<close>, the outputs of a freshly constructed
  \<^verbatim>\<open>BandStopFilter(low, high, init_value)\<close> are, element by element, the sums of the
  outputs of a fresh \<^verbatim>\<open>LowPassFilter(low, init_value)\<close> and of a fresh
  \<^verbatim>\<open>HighPassFilter(high, init_value)\<close>, each fed the same inputs on its own. Both
  sides raise the same exception when one does; with \<open>low \<ge> 0\<close> and every
  \<open>dt \<ge> 0\<close> there is one output for each input.
\<close>

theorem BandStopFilter_is_parallel_sum:
  assumes "low \<le> high"
  shows "BandStopFilter_outputs low high init_value inputs =
           spec_parallel_outputs low high init_value inputs
         \<and> (0 \<le> low \<and> (\<forall>x \<in> set inputs. 0 \<le> snd x) \<longrightarrow>
              (\<exists>ys. BandStopFilter_outputs low high init_value inputs = Inr ys
                    \<and> length ys = length inputs))"
proof
  show "BandStopFilter_outputs low high init_value inputs =
           spec_parallel_outputs low high init_value inputs"
    using assms
    by (simp add: BandStopFilter_outputs_def spec_parallel_outputs_def BandStopFilter_init_eq
        HighPassFilter_init_def LowPassFilter_init_def SingleCutoffFreqFilter_init_def
        SingleCutoffFreqFilter__check_cutoff_freq_def BandStopFilter_filter_seq)
  show "0 \<le> low \<and> (\<forall>x \<in> set inputs. 0 \<le> snd x) \<longrightarrow>
              (\<exists>ys. BandStopFilter_outputs low high init_value inputs = Inr ys
                    \<and> length ys = length inputs)"
    using assms BandStopFilter_outputs_returns [of low high inputs init_value] by blast
qed

text \<open>
  The theorem at cutoff frequencies 0 and 1, initial value 0 and the one input
  \<open>(1, 1)\<close>: the low-pass filter holds 0, the high-pass filter damps the step.
\<close>

theorem BandStopFilter_is_parallel_sum_witness:
  "BandStopFilter_outputs 0 1 0 [(1, 1)] = spec_parallel_outputs 0 1 0 [(1, 1)]
   \<and> BandStopFilter_outputs 0 1 0 [(1, 1)] = Inr [1 / (2 * pi + 1)]"
proof -
  have h: "(0 :: real) \<le> 1" by simp
  show ?thesis
    using BandStopFilter_is_parallel_sum [OF h, of 0 "[(1, 1)]"] spec_parallel_outputs_example
    by simp
qed

subsection \<open>Periodic signal generators: frequency and period\<close>






subsection \<open>Uniform random signal generator: construction\<close>

text \<open>
  Claim C8 says that \<^verbatim>\<open>low >= high\<close> is rejected with \<^verbatim>\<open>ValueError\<close>. The constructor
  never compares the two: \<^verbatim>\<open>UniformRandomSignalGenerator(low=1.0, high=0.0)\<close> is
  constructed.
\<close>

theorem UniformRandomSignalGenerator_accepts_low_above_high:
  "UniformRandomSignalGenerator_init 1 0 None ''pseudo''
     = Inr \<lparr>m_rng = PyRandom None, m_low = 1, m_high = 0\<rparr>"
  by (simp add: UniformRandomSignalGenerator_init_def RandomSignalGenerator_init_def
      RandomSignalGenerator__set_rng_def)

text \<open>
  Claim C8, amended. The constructor of a uniform random signal generator
  validates the randomness selector only: with \<^verbatim>\<open>'pseudo'\<close> or \<^verbatim>\<open>'true'\<close> it stores
  \<^verbatim>\<open>low\<close> and \<^verbatim>\<open>high\<close> as given, whatever their order, and with any other selector
  it raises \<^verbatim>\<open>ValueError\<close> (the specification's InvalidParameter).
\<close>

theorem UniformRandomSignalGenerator_init_validation:
  "UniformRandomSignalGenerator_init low high seed randomness =
     (if randomness = ''pseudo''
      then Inr \<lparr>m_rng = PyRandom seed, m_low = low, m_high = high\<rparr>
      else if randomness = ''true''
      then Inr \<lparr>m_rng = PySystemRandom, m_low = low, m_high = high\<rparr>
      else Inl ValueError)"
  by (cases seed)
    (simp_all add: UniformRandomSignalGenerator_init_def RandomSignalGenerator_init_def
      RandomSignalGenerator__set_rng_def)

section \<open>Properties in binary64\<close>

subsection \<open>Rounding to the nearest float\<close>

text \<open>
  Facts about \<open>b64_nearest\<close> on the non-negative reals: it fixes every multiple of
  the quantum whose mantissa is at most \<open>2 ^ 53\<close>, it is idempotent, and it is
  monotone. So rounding never moves a value across a float: a float below the
  exact result stays below the rounded one, and a float above it stays above.
\<close>

lemma pow2_pos [simp]: "0 < pow2 k"
  by (simp add: pow2_def)

lemma pow2_nonneg [simp]: "0 \<le> pow2 k"
  using pow2_pos [of k] by linarith

lemma pow2_neq_0 [simp]: "pow2 k \<noteq> 0"
  using pow2_pos [of k] by linarith

lemma pow2_add: "pow2 (j + k) = pow2 j * pow2 k"
  by (simp add: pow2_def powr_add)

lemma pow2_nat: "pow2 (int n) = 2 ^ n"
  by (simp add: pow2_def powr_realpow)

lemma pow2_numeral [simp]: "pow2 (numeral n) = 2 ^ numeral n"
  using pow2_nat [of "numeral n"] by simp

lemma pow2_0 [simp]: "pow2 0 = 1"
  by (simp add: pow2_def)

lemma pow2_1 [simp]: "pow2 1 = 2"
  by (simp add: pow2_def)

lemma pow2_neg_numeral [simp]: "pow2 (- numeral n) = 1 / 2 ^ numeral n"
proof -
  have "pow2 (- numeral n) * pow2 (numeral n) = 1"
    using pow2_add [of "- numeral n" "numeral n"] by simp
  then show ?thesis by (simp add: field_simps)
qed

lemma pow2_minus_1 [simp]: "pow2 (- 1) = 1 / 2"
proof -
  have "pow2 (- 1) * pow2 1 = 1" using pow2_add [of "- 1" 1] by simp
  then show ?thesis by (simp add: field_simps)
qed


lemma pow2_less_iff [simp]: "pow2 j < pow2 k \<longleftrightarrow> j < k"
  by (simp add: pow2_def)

lemma pow2_le_iff [simp]: "pow2 j \<le> pow2 k \<longleftrightarrow> j \<le> k"
  by (simp add: pow2_def)

lemma pow2_52: "pow2 e = pow2 (e - 52) * 2 ^ 52"
  using pow2_add [of "e - 52" 52] by simp

lemma pow2_53: "pow2 (e + 1) = pow2 (e - 52) * 2 ^ 53"
proof -
  have "pow2 (e + 1) = pow2 ((e - 52) + 53)" by (rule arg_cong [of _ _ pow2]) simp
  then show ?thesis by (simp only: pow2_add pow2_numeral)
qed

lemma pow2_succ: "pow2 (e + 1) = pow2 e * 2"
  using pow2_add [of e 1] by simp

lemma rhe_of_int [simp]: "round_half_even (of_int n) = n"
  by (simp add: round_half_even_def)






lemma exponent_ge_iff:
  assumes "0 < x"
  shows "k \<le> b64_exponent x \<longleftrightarrow> pow2 k \<le> x \<or> k \<le> - 1022"
proof -
  have "k \<le> \<lfloor>log 2 x\<rfloor> \<longleftrightarrow> pow2 k \<le> x"
    using assms by (simp add: le_floor_iff le_log_iff pow2_def)
  then show ?thesis using assms by (auto simp add: b64_exponent_def)
qed

lemma exponent_less_iff:
  assumes "0 < x"
  shows "b64_exponent x < k \<longleftrightarrow> x < pow2 k \<and> - 1022 < k"
  using exponent_ge_iff [OF assms, of k] by (auto simp add: not_le [symmetric])




lemma exponent_eqI:
  assumes "0 < x" and "pow2 e \<le> x \<or> e = - 1022" and "x < pow2 (e + 1)"
    and "- 1022 \<le> e"
  shows "b64_exponent x = e"
proof -
  have "e \<le> b64_exponent x" using assms exponent_ge_iff [of x e] by auto
  moreover have "b64_exponent x < e + 1" using assms exponent_less_iff [of x "e + 1"] by auto
  ultimately show ?thesis by linarith
qed



lemma nearest_zero [simp]: "b64_nearest 0 = 0"
  by (simp add: b64_nearest_def)


lemma nearest_pos:
  "0 < x \<Longrightarrow> b64_nearest x = b64_quantum x * of_int (round_half_even (x / b64_quantum x))"
  by (simp add: b64_nearest_def)

lemma nearest_binade:
  assumes "0 < x" and "pow2 e \<le> x \<or> e = - 1022" and "x < pow2 (e + 1)"
    and "- 1022 \<le> e"
  shows "b64_nearest x = pow2 (e - 52) * of_int (round_half_even (x / pow2 (e - 52)))"
  using exponent_eqI [OF assms] assms(1) by (simp add: nearest_pos b64_quantum_def)




lemma of_int_ge_pow: "2 ^ k \<le> n \<Longrightarrow> 2 ^ k \<le> real_of_int n"
  by (metis of_int_le_iff of_int_numeral of_int_power)

lemma of_int_less_pow: "n < 2 ^ k \<Longrightarrow> real_of_int n < 2 ^ k"
  by (metis of_int_less_iff of_int_numeral of_int_power)



lemma nearest_grid:
  assumes "- 1022 \<le> e" and "0 < n" and "n \<le> 2 ^ 53" and "2 ^ 52 \<le> n \<or> e = - 1022"
  shows "b64_nearest (pow2 (e - 52) * of_int n) = pow2 (e - 52) * of_int n"
proof -
  let ?q = "pow2 (e - 52)"
  let ?v = "?q * of_int n"
  have v: "0 < ?v" using assms(2) by (simp add: zero_less_mult_iff)
  show ?thesis
  proof (cases "n = 2 ^ 53")
    case True
    have q': "pow2 ((e + 1) - 52) = ?q * 2"
    proof -
      have "pow2 ((e + 1) - 52) = pow2 ((e - 52) + 1)" by (rule arg_cong [of _ _ pow2]) simp
      then show ?thesis by (simp only: pow2_add pow2_1)
    qed
    have eq: "?v = pow2 ((e + 1) - 52) * of_int (2 ^ 52)"
      using True q' by simp
    have lo: "pow2 (e + 1) \<le> ?v \<or> e + 1 = - 1022"
      using pow2_53 [of e] True by simp
    have hi: "?v < pow2 ((e + 1) + 1)"
      using pow2_53 [of e] pow2_succ [of "e + 1"] True by simp
    have "b64_nearest ?v =
            pow2 ((e + 1) - 52) * of_int (round_half_even (?v / pow2 ((e + 1) - 52)))"
      using v lo hi assms(1) by (intro nearest_binade) auto
    also have "?v / pow2 ((e + 1) - 52) = of_int (2 ^ 52)"
      by (subst eq) simp
    finally show ?thesis using eq by (simp only: rhe_of_int)
  next
    case False
    with assms(3) have n: "n < 2 ^ 53" by simp
    have lo: "pow2 e \<le> ?v \<or> e = - 1022"
    proof (cases "e = - 1022")
      case True then show ?thesis by simp
    next
      case False
      with assms(4) have "(2::int) ^ 52 \<le> n" by simp
      then have "(2::real) ^ 52 \<le> of_int n" by (rule of_int_ge_pow)
      then have "?q * 2 ^ 52 \<le> ?v" by (simp add: mult_left_mono)
      then show ?thesis using pow2_52 [of e] by simp
    qed
    have hi: "?v < pow2 (e + 1)"
    proof -
      have "of_int n < (2::real) ^ 53" using n by (rule of_int_less_pow)
      then have "?v < ?q * 2 ^ 53" by (simp add: mult_strict_left_mono)
      then show ?thesis using pow2_53 [of e] by simp
    qed
    have "b64_nearest ?v = ?q * of_int (round_half_even (?v / ?q))"
      using v lo hi assms(1) by (rule nearest_binade)
    then show ?thesis by simp
  qed
qed







lemma nearest_1 [simp]: "b64_nearest 1 = 1"
  using nearest_grid [of 0 "2 ^ 52"] by simp














subsection \<open>The smoothing coefficients\<close>












subsection \<open>Triangle wave with a degenerate duty cycle\<close>














end
